theory Spec2Isabelle
  imports Main "HOL-Library.Sublist"
begin

section \<open>The broker's database\<close>

text \<open>
  \<^verbatim>\<open>message_queue.py\<close> keeps all of its state in four SQLite tables (exchanges, queues,
  bindings, messages); every method of \<^verbatim>\<open>MessageBroker\<close> opens the database, runs a few
  statements and commits. The model passes the database explicitly: a record of four
  tables, each table the list of its rows in rowid order (an \<^verbatim>\<open>INSERT\<close> appends, a
  \<^verbatim>\<open>SELECT\<close> without \<^verbatim>\<open>ORDER BY\<close> that scans the table reads the list from the front,
  one that SQLite answers through an index reads the rows in the order of the index,
  and \<^verbatim>\<open>fetchone\<close> is the first row read).

  What the code reads from its environment is a parameter of the model:
  \<^item> \<^verbatim>\<open>str(uuid.uuid4())\<close> is the parameter \<open>uuid4\<close>;
  \<^item> \<^verbatim>\<open>datetime.now()\<close> is a timestamp \<open>now\<close>, or a function \<open>clock\<close> whose value at
    \<open>k\<close> is the \<open>k\<close>-th reading taken during the call, where a method reads the clock
    more than once.

  Python's \<^verbatim>\<open>str\<close> is \<open>string\<close>, \<^verbatim>\<open>bytes\<close> is a list of characters as well, the
  integer columns are \<open>int\<close>. SQLite stores an integer in 64 bits: binding a Python
  integer outside that range to a statement raises \<^verbatim>\<open>OverflowError\<close> before the
  statement runs, which the model has as an error of the two methods that bind an
  integer of the caller (\<^verbatim>\<open>publish\<close> its priority, \<^verbatim>\<open>consume\<close> its limit). For the
  values a column can hold the model is the code. A \<^verbatim>\<open>Dict[str, str]\<close> is an association list. The headers
  column of a message holds the text \<^verbatim>\<open>str(headers)\<close>, which \<^verbatim>\<open>eval\<close> turns back into the
  dictionary, so the model stores the dictionary. The arguments column of a queue holds
  either such a text or the literal text that \<^verbatim>\<open>dead_letter_queue\<close> writes.
\<close>

type_synonym timestamp = nat
type_synonym pydict = "(string \<times> string) list"
type_synonym bytes = string

datatype arguments_text =
    Str_of_dict pydict   \<comment> \<open>the text \<^verbatim>\<open>str(arguments)\<close>\<close>
  | Text string          \<comment> \<open>a literal text\<close>

datatype error = IntegrityError | OverflowError

definition sqlite_integer :: "int \<Rightarrow> bool" where
  "sqlite_integer i \<longleftrightarrow> - (2 ^ 63) \<le> i \<and> i < 2 ^ 63"

text \<open>
  The dataclass \<^verbatim>\<open>Queue\<close> and a row of the table \<^verbatim>\<open>queues\<close> have the same fields; the
  object carries the dictionary, the row its text.
\<close>

record 'a queue =
  q_id :: string
  q_name :: string
  q_vhost :: string
  q_durable :: bool
  q_exclusive :: bool
  q_auto_delete :: bool
  q_arguments :: 'a
  q_message_count :: int
  q_consumer_count :: int
  q_created_at :: timestamp
  q_last_message_at :: "timestamp option"

record message =
  m_id :: string
  m_queue_id :: string
  m_exchange :: string
  m_routing_key :: string
  m_body :: bytes
  m_headers :: pydict
  m_priority :: int
  m_delivery_mode :: int
  m_content_type :: string
  m_published_at :: timestamp
  m_acked_at :: "timestamp option"
  m_nacked_at :: "timestamp option"
  m_attempts :: int

record exchange =
  x_id :: string
  x_name :: string
  x_type :: string
  x_vhost :: string
  x_durable :: bool
  x_auto_delete :: bool

record binding =
  b_queue_id :: string
  b_exchange_id :: string
  b_routing_key :: string
  b_vhost :: string

record broker_db =
  exchanges :: "exchange list"
  queues :: "arguments_text queue list"
  bindings :: "binding list"
  messages :: "message list"

text \<open>The database right after \<^verbatim>\<open>_init_db\<close> on a new file: four empty tables.\<close>

definition init_db :: broker_db where
  "init_db = \<lparr>exchanges = [], queues = [], bindings = [], messages = []\<rparr>"

subsection \<open>The lookups\<close>

text \<open>
  \<^verbatim>\<open>SELECT id FROM queues WHERE name = ? AND vhost = ?\<close> followed by \<^verbatim>\<open>fetchone()\<close>,
  and the same on exchanges. The tables are unique in (name, vhost), so there is at
  most one row to return.
\<close>

definition select_queue :: "broker_db \<Rightarrow> string \<Rightarrow> string \<Rightarrow> arguments_text queue option" where
  "select_queue db name vhost = find (\<lambda>q. q_name q = name \<and> q_vhost q = vhost) (queues db)"

definition select_exchange :: "broker_db \<Rightarrow> string \<Rightarrow> string \<Rightarrow> exchange option" where
  "select_exchange db name vhost = find (\<lambda>x. x_name x = name \<and> x_vhost x = vhost) (exchanges db)"

text \<open>
  \<^verbatim>\<open>SELECT id FROM queues WHERE name = ?\<close> followed by \<^verbatim>\<open>fetchone()\<close>, the lookup of
  \<^verbatim>\<open>consume\<close>, \<^verbatim>\<open>purge_queue\<close>, \<^verbatim>\<open>dead_letter_queue\<close> and \<^verbatim>\<open>get_pending_dlq\<close>.
  Several vhosts may hold a queue of the name. SQLite answers the statement through
  the index of \<^verbatim>\<open>UNIQUE(name, vhost)\<close>, so the rows of the name come in the order of
  their vhosts and \<^verbatim>\<open>fetchone()\<close> is the row with the smallest vhost. The texts are
  compared byte by byte (the collation \<^verbatim>\<open>BINARY\<close>); rows of the same vhost come in
  rowid order.
\<close>

fun binary_less :: "string \<Rightarrow> string \<Rightarrow> bool" where
  "binary_less [] [] \<longleftrightarrow> False"
| "binary_less [] (y # ys) \<longleftrightarrow> True"
| "binary_less (x # xs) [] \<longleftrightarrow> False"
| "binary_less (x # xs) (y # ys) \<longleftrightarrow>
     (of_char x :: nat) < of_char y \<or> (x = y \<and> binary_less xs ys)"

primrec first_by_vhost :: "'a queue \<Rightarrow> 'a queue list \<Rightarrow> 'a queue" where
  "first_by_vhost best [] = best"
| "first_by_vhost best (row # rows) =
     first_by_vhost (if binary_less (q_vhost row) (q_vhost best) then row else best) rows"

definition select_queue_by_name :: "broker_db \<Rightarrow> string \<Rightarrow> arguments_text queue option" where
  "select_queue_by_name db name =
     (case filter (\<lambda>q. q_name q = name) (queues db) of
        [] \<Rightarrow> None
      | row # rows \<Rightarrow> Some (first_by_vhost row rows))"

text \<open>\<^verbatim>\<open>LIMIT n\<close>: SQLite reads a negative limit as no limit.\<close>

definition sql_limit :: "int \<Rightarrow> 'a list \<Rightarrow> 'a list" where
  "sql_limit n rows = (if n < 0 then rows else take (nat n) rows)"

section \<open>The operations of MessageBroker\<close>

subsection \<open>declare_queue\<close>

text \<open>
  The row is looked up by (name, vhost). When it exists its id is taken and nothing is
  written; otherwise a row with a new id is inserted, with the table's defaults for the
  columns the statement does not name. The primary key on \<^verbatim>\<open>id\<close> makes the insert
  raise \<^verbatim>\<open>sqlite3.IntegrityError\<close> when the new id is already a queue's id. The object
  returned is built from the arguments of the call, not from the row.
\<close>

definition declare_queue ::
  "broker_db \<Rightarrow> string \<Rightarrow> (nat \<Rightarrow> timestamp) \<Rightarrow> string \<Rightarrow> string \<Rightarrow> bool \<Rightarrow> bool \<Rightarrow> bool \<Rightarrow>
   pydict option \<Rightarrow> error + (broker_db \<times> pydict queue)" where
  "declare_queue db uuid4 clock name vhost durable exclusive auto_delete arguments =
     (let arguments' = (case arguments of None \<Rightarrow> [] | Some a \<Rightarrow> a);
          obj = (\<lambda>queue_id t.
            \<lparr>q_id = queue_id, q_name = name, q_vhost = vhost, q_durable = durable,
             q_exclusive = exclusive, q_auto_delete = auto_delete, q_arguments = arguments',
             q_message_count = 0, q_consumer_count = 0, q_created_at = t,
             q_last_message_at = None\<rparr>)
      in case select_queue db name vhost of
           Some row \<Rightarrow> Inr (db, obj (q_id row) (clock 0))
         | None \<Rightarrow>
             if uuid4 \<in> set (map q_id (queues db)) then Inl IntegrityError
             else Inr (db\<lparr>queues := queues db @
                        [\<lparr>q_id = uuid4, q_name = name, q_vhost = vhost, q_durable = durable,
                          q_exclusive = exclusive, q_auto_delete = auto_delete,
                          q_arguments = Str_of_dict arguments',
                          q_message_count = 0, q_consumer_count = 0,
                          q_created_at = clock 0, q_last_message_at = None\<rparr>]\<rparr>,
                       obj uuid4 (clock 1)))"

subsection \<open>declare_exchange\<close>

text \<open>
  \<^verbatim>\<open>INSERT OR IGNORE\<close>: the row is skipped when it would break the primary key on
  \<^verbatim>\<open>id\<close> or the uniqueness of (name, vhost). Nothing is raised, and the object returned
  always carries the new id and the arguments of the call.
\<close>

definition declare_exchange ::
  "broker_db \<Rightarrow> string \<Rightarrow> string \<Rightarrow> string \<Rightarrow> string \<Rightarrow> bool \<Rightarrow> bool \<Rightarrow> broker_db \<times> exchange" where
  "declare_exchange db uuid4 name type vhost durable auto_delete =
     (let row = \<lparr>x_id = uuid4, x_name = name, x_type = type, x_vhost = vhost,
                 x_durable = durable, x_auto_delete = auto_delete\<rparr>
      in (if list_ex (\<lambda>x. x_id x = uuid4 \<or> (x_name x = name \<and> x_vhost x = vhost)) (exchanges db)
          then db
          else db\<lparr>exchanges := exchanges db @ [row]\<rparr>,
          row))"

subsection \<open>bind_queue\<close>

definition bind_queue ::
  "broker_db \<Rightarrow> string \<Rightarrow> string \<Rightarrow> string \<Rightarrow> string \<Rightarrow> broker_db \<times> bool" where
  "bind_queue db queue_name exchange_name routing_key vhost =
     (case (select_queue db queue_name vhost, select_exchange db exchange_name vhost) of
        (Some queue_result, Some exchange_result) \<Rightarrow>
          (if list_ex (\<lambda>b. b_queue_id b = q_id queue_result \<and>
                            b_exchange_id b = x_id exchange_result \<and>
                            b_routing_key b = routing_key) (bindings db)
           then db
           else db\<lparr>bindings := bindings db @
                  [\<lparr>b_queue_id = q_id queue_result, b_exchange_id = x_id exchange_result,
                    b_routing_key = routing_key, b_vhost = vhost\<rparr>]\<rparr>,
           True)
      | _ \<Rightarrow> (db, False))"

subsection \<open>publish\<close>

text \<open>
  The exchange is looked up by (name, vhost); without it the empty string is returned.
  Otherwise one row is inserted into \<^verbatim>\<open>messages\<close>, its \<^verbatim>\<open>queue_id\<close> the empty string,
  its delivery mode 2, its attempts 0. The table \<^verbatim>\<open>bindings\<close> is not read. Binding
  a priority that does not fit 64 bits raises \<^verbatim>\<open>OverflowError\<close>, and the primary key on
  \<^verbatim>\<open>id\<close> makes the insert raise \<^verbatim>\<open>IntegrityError\<close> when the new id is already a
  message's id; either way nothing is stored.
\<close>

definition publish ::
  "broker_db \<Rightarrow> string \<Rightarrow> timestamp \<Rightarrow> string \<Rightarrow> string \<Rightarrow> bytes \<Rightarrow> pydict option \<Rightarrow> int \<Rightarrow>
   string \<Rightarrow> string \<Rightarrow> error + (broker_db \<times> string)" where
  "publish db uuid4 now exchange routing_key body headers priority content_type vhost =
     (let headers' = (case headers of None \<Rightarrow> [] | Some h \<Rightarrow> h);
          message_id = uuid4
      in case select_exchange db exchange vhost of
           None \<Rightarrow> Inr (db, [])
         | Some exchange_result \<Rightarrow>
             if \<not> sqlite_integer priority then Inl OverflowError
             else if message_id \<in> set (map m_id (messages db)) then Inl IntegrityError
             else Inr (db\<lparr>messages := messages db @
                        [\<lparr>m_id = message_id, m_queue_id = [], m_exchange = exchange,
                          m_routing_key = routing_key, m_body = body, m_headers = headers',
                          m_priority = priority, m_delivery_mode = 2,
                          m_content_type = content_type, m_published_at = now,
                          m_acked_at = None, m_nacked_at = None, m_attempts = 0\<rparr>]\<rparr>,
                       message_id))"

subsection \<open>consume\<close>

text \<open>
  The rows selected are those of the queue with neither \<^verbatim>\<open>acked_at\<close> nor \<^verbatim>\<open>nacked_at\<close>
  set, in the order of the scan (the statement scans the table, no index applies), cut
  by \<^verbatim>\<open>LIMIT\<close>; binding a limit that does not fit 64 bits raises \<^verbatim>\<open>OverflowError\<close>
  and nothing is read or written. The loop then runs over the rows
  fetched: with \<^verbatim>\<open>ack\<close> it stamps each one (\<^verbatim>\<open>UPDATE ... WHERE id = ?\<close>, one reading of
  the clock per row). The messages returned are built from the rows as fetched.
\<close>

definition ready :: "string \<Rightarrow> message \<Rightarrow> bool" where
  "ready queue_id m \<longleftrightarrow> m_queue_id m = queue_id \<and> m_acked_at m = None \<and> m_nacked_at m = None"

definition update_acked_at :: "timestamp \<Rightarrow> string \<Rightarrow> message list \<Rightarrow> message list" where
  "update_acked_at t i tbl = map (\<lambda>m. if m_id m = i then m\<lparr>m_acked_at := Some t\<rparr> else m) tbl"

primrec consume_rows ::
  "bool \<Rightarrow> (nat \<Rightarrow> timestamp) \<Rightarrow> nat \<Rightarrow> message list \<Rightarrow> message list \<Rightarrow> message list" where
  "consume_rows ack clock k [] tbl = tbl"
| "consume_rows ack clock k (row # rows) tbl =
     consume_rows ack clock (Suc k) rows
       (if ack then update_acked_at (clock k) (m_id row) tbl else tbl)"

definition consume ::
  "broker_db \<Rightarrow> (nat \<Rightarrow> timestamp) \<Rightarrow> string \<Rightarrow> int \<Rightarrow> bool \<Rightarrow>
   error + (broker_db \<times> message list)" where
  "consume db clock queue_name n ack =
     (case select_queue_by_name db queue_name of
        None \<Rightarrow> Inr (db, [])
      | Some queue_result \<Rightarrow>
          if \<not> sqlite_integer n then Inl OverflowError
          else (let rows = sql_limit n (filter (ready (q_id queue_result)) (messages db))
                in Inr (db\<lparr>messages := consume_rows ack clock 0 rows (messages db)\<rparr>, rows)))"

subsection \<open>nack\<close>

text \<open>
  One \<^verbatim>\<open>UPDATE\<close> on the rows with the given id; \<^verbatim>\<open>requeue\<close> is not read and the result
  is always \<^verbatim>\<open>True\<close>.
\<close>

definition nack :: "broker_db \<Rightarrow> timestamp \<Rightarrow> string \<Rightarrow> bool \<Rightarrow> broker_db \<times> bool" where
  "nack db now message_id requeue =
     (db\<lparr>messages := map (\<lambda>m. if m_id m = message_id
                               then m\<lparr>m_nacked_at := Some now, m_attempts := m_attempts m + 1\<rparr>
                               else m) (messages db)\<rparr>,
      True)"

subsection \<open>purge_queue\<close>

text \<open>
  \<^verbatim>\<open>DELETE FROM messages WHERE queue_id = ?\<close>; the result is the statement's
  \<^verbatim>\<open>rowcount\<close>, the number of rows deleted, and 0 when no queue has the name.
\<close>

definition purge_queue :: "broker_db \<Rightarrow> string \<Rightarrow> broker_db \<times> int" where
  "purge_queue db queue_name =
     (case select_queue_by_name db queue_name of
        None \<Rightarrow> (db, 0)
      | Some result \<Rightarrow>
          (db\<lparr>messages := filter (\<lambda>m. m_queue_id m \<noteq> q_id result) (messages db)\<rparr>,
           int (length (filter (\<lambda>m. m_queue_id m = q_id result) (messages db)))))"

subsection \<open>get_queue_stats\<close>

text \<open>
  The dictionary returned has three entries: the number of rows, the sum of their
  \<^verbatim>\<open>message_count\<close> and the sum of their \<^verbatim>\<open>consumer_count\<close>. \<^verbatim>\<open>if queue_name:\<close> takes
  the first branch for a non-empty string only.
\<close>

record queue_stats =
  stats_queues :: int
  stats_total_messages :: int
  stats_total_consumers :: int

definition get_queue_stats :: "broker_db \<Rightarrow> string option \<Rightarrow> queue_stats" where
  "get_queue_stats db queue_name =
     (let rows = (case queue_name of
                    None \<Rightarrow> queues db
                  | Some name \<Rightarrow> if name = [] then queues db
                                 else filter (\<lambda>q. q_name q = name) (queues db))
      in \<lparr>stats_queues = int (length rows),
          stats_total_messages = sum_list (map q_message_count rows),
          stats_total_consumers = sum_list (map q_consumer_count rows)\<rparr>)"

subsection \<open>dead_letter_queue\<close>

text \<open>
  The dead-letter queue is declared first, with the defaults of \<^verbatim>\<open>declare_queue\<close>
  (vhost \<^verbatim>\<open>"/"\<close>, durable, no arguments); that call commits on its own. Then the source
  queue is looked up by name, and its arguments column is overwritten with the text
  \<^verbatim>\<open>{"x-dead-letter-queue": "<dlq_name>"}\<close>.
\<close>

definition dead_letter_text :: "string \<Rightarrow> string" where
  "dead_letter_text dlq_name =
     [CHR ''{'', CHR 0x22] @ ''x-dead-letter-queue'' @ [CHR 0x22, CHR '':'', CHR '' '', CHR 0x22]
       @ dlq_name @ [CHR 0x22, CHR ''}'']"

definition dead_letter_queue ::
  "broker_db \<Rightarrow> string \<Rightarrow> (nat \<Rightarrow> timestamp) \<Rightarrow> string \<Rightarrow> string \<Rightarrow> error + (broker_db \<times> bool)" where
  "dead_letter_queue db uuid4 clock queue_name dlq_name =
     (case declare_queue db uuid4 clock dlq_name ''/'' True False False None of
        Inl e \<Rightarrow> Inl e
      | Inr (db1, _) \<Rightarrow>
          (case select_queue_by_name db1 queue_name of
             Some result \<Rightarrow>
               Inr (db1\<lparr>queues := map (\<lambda>q. if q_id q = q_id result
                                             then q\<lparr>q_arguments := Text (dead_letter_text dlq_name)\<rparr>
                                             else q) (queues db1)\<rparr>,
                    True)
           | None \<Rightarrow> Inr (db1, False)))"

subsection \<open>get_pending_dlq\<close>

definition get_pending_dlq :: "broker_db \<Rightarrow> string \<Rightarrow> message list" where
  "get_pending_dlq db dlq_name =
     (case select_queue_by_name db dlq_name of
        None \<Rightarrow> []
      | Some result \<Rightarrow>
          filter (\<lambda>m. m_queue_id m = q_id result \<and> m_attempts m \<ge> 3) (messages db))"

section \<open>Reachable databases\<close>

text \<open>
  \<^verbatim>\<open>str(uuid.uuid4())\<close> is a string of 36 characters (32 hexadecimal digits and four
  hyphens). The model keeps the length only, which admits every string the library can
  return.
\<close>

definition is_uuid4 :: "string \<Rightarrow> bool" where
  "is_uuid4 s \<longleftrightarrow> length s = 36"

text \<open>
  One call of a method that writes and returns. A call that raises commits nothing.
\<close>

inductive step :: "broker_db \<Rightarrow> broker_db \<Rightarrow> bool" where
  step_declare_queue:
    "is_uuid4 uuid4 \<Longrightarrow>
     declare_queue db uuid4 clock name vhost durable exclusive auto_delete arguments = Inr (db', q)
     \<Longrightarrow> step db db'"
| step_declare_exchange:
    "is_uuid4 uuid4 \<Longrightarrow>
     step db (fst (declare_exchange db uuid4 name type vhost durable auto_delete))"
| step_bind_queue:
    "step db (fst (bind_queue db queue_name exchange_name routing_key vhost))"
| step_publish:
    "is_uuid4 uuid4 \<Longrightarrow>
     publish db uuid4 now exchange routing_key body headers priority content_type vhost
       = Inr (db', message_id)
     \<Longrightarrow> step db db'"
| step_consume:
    "consume db clock queue_name n ack = Inr (db', rows) \<Longrightarrow> step db db'"
| step_nack:
    "step db (fst (nack db now message_id requeue))"
| step_purge_queue:
    "step db (fst (purge_queue db queue_name))"
| step_dead_letter_queue:
    "is_uuid4 uuid4 \<Longrightarrow>
     dead_letter_queue db uuid4 clock queue_name dlq_name = Inr (db', ok)
     \<Longrightarrow> step db db'"

text \<open>The databases a broker can be in: the empty one, and those a step leads to.\<close>

inductive reachable :: "broker_db \<Rightarrow> bool" where
  reachable_init: "reachable init_db"
| reachable_step: "reachable db \<Longrightarrow> step db db' \<Longrightarrow> reachable db'"

text \<open>
  No message is in any queue: every queue has a non-empty id and the stored count 0,
  every message the empty \<^verbatim>\<open>queue_id\<close>.
\<close>

definition nothing_enqueued :: "broker_db \<Rightarrow> bool" where
  "nothing_enqueued db \<longleftrightarrow>
     (\<forall>q \<in> set (queues db). q_message_count q = 0 \<and> q_id q \<noteq> []) \<and>
     (\<forall>m \<in> set (messages db). m_queue_id m = [])"

section \<open>Example databases\<close>

text \<open>
  The databases below are given by their rows. Those that hold a message in a queue
  (a row of \<^verbatim>\<open>messages\<close> whose \<^verbatim>\<open>queue_id\<close> is the id of a queue, as the foreign key of
  the table declares) are contents of the database file that the methods can be run
  on; \<^verbatim>\<open>publish\<close> itself never writes such a row, since it stores the empty
  \<^verbatim>\<open>queue_id\<close>.
\<close>

definition example_queue :: "string \<Rightarrow> string \<Rightarrow> arguments_text \<Rightarrow> arguments_text queue" where
  "example_queue i name args =
     \<lparr>q_id = i, q_name = name, q_vhost = ''/'', q_durable = True, q_exclusive = False,
      q_auto_delete = False, q_arguments = args, q_message_count = 0,
      q_consumer_count = 0, q_created_at = 1, q_last_message_at = None\<rparr>"

definition example_message :: "string \<Rightarrow> string \<Rightarrow> int \<Rightarrow> message" where
  "example_message i queue_id priority =
     \<lparr>m_id = i, m_queue_id = queue_id, m_exchange = ''events'',
      m_routing_key = ''job.created'', m_body = ''payload'', m_headers = [],
      m_priority = priority, m_delivery_mode = 2, m_content_type = ''text/plain'',
      m_published_at = 100, m_acked_at = None, m_nacked_at = None, m_attempts = 0\<rparr>"

definition example_exchange :: "string \<Rightarrow> string \<Rightarrow> exchange" where
  "example_exchange i type =
     \<lparr>x_id = i, x_name = ''events'', x_type = type, x_vhost = ''/'', x_durable = True,
      x_auto_delete = False\<rparr>"

text \<open>A clock whose first reading is 1 and that advances by 1 at every reading.\<close>

definition example_clock :: "nat \<Rightarrow> timestamp" where
  "example_clock k = 1 + k"

text \<open>One queue \<^verbatim>\<open>work\<close> holding one message that was neither acked nor nacked.\<close>

definition db_one_message :: broker_db where
  "db_one_message =
     \<lparr>exchanges = [example_exchange ''x-events'' ''direct''],
      queues = [example_queue ''q-work'' ''work'' (Str_of_dict [])],
      bindings = [],
      messages = [example_message ''m1'' ''q-work'' 0]\<rparr>"

text \<open>
  An exchange with two queues bound to it under the routing key of the message, as
  three declarations and two calls of \<^verbatim>\<open>bind_queue\<close> leave it.
\<close>

definition db_two_bound :: broker_db where
  "db_two_bound =
     \<lparr>exchanges = [example_exchange ''x-events'' ''fanout''],
      queues = [example_queue ''q-a'' ''a'' (Str_of_dict []),
                example_queue ''q-b'' ''b'' (Str_of_dict [])],
      bindings = [\<lparr>b_queue_id = ''q-a'', b_exchange_id = ''x-events'',
                    b_routing_key = ''job.created'', b_vhost = ''/''\<rparr>,
                  \<lparr>b_queue_id = ''q-b'', b_exchange_id = ''x-events'',
                    b_routing_key = ''job.created'', b_vhost = ''/''\<rparr>],
      messages = []\<rparr>"

text \<open>
  The queue \<^verbatim>\<open>work\<close> with the dead-letter queue \<^verbatim>\<open>dlq\<close> configured, and one message
  in \<^verbatim>\<open>work\<close>.
\<close>

definition db_dead_letter :: broker_db where
  "db_dead_letter =
     \<lparr>exchanges = [example_exchange ''x-events'' ''direct''],
      queues = [example_queue ''q-work'' ''work'' (Text (dead_letter_text ''dlq'')),
                example_queue ''q-dlq'' ''dlq'' (Str_of_dict [])],
      bindings = [],
      messages = [example_message ''m1'' ''q-work'' 0]\<rparr>"

text \<open>The same database after three calls \<^verbatim>\<open>nack("m1", requeue=True)\<close>, at the times 11, 12, 13.\<close>

definition db_nacked_thrice :: broker_db where
  "db_nacked_thrice =
     fst (nack (fst (nack (fst (nack db_dead_letter 11 ''m1'' True)) 12 ''m1'' True))
            13 ''m1'' True)"

text \<open>The queue \<^verbatim>\<open>work\<close> with three messages of priorities 1, 5, 3, published in that order.\<close>

definition db_priorities :: broker_db where
  "db_priorities =
     \<lparr>exchanges = [example_exchange ''x-events'' ''direct''],
      queues = [example_queue ''q-work'' ''work'' (Str_of_dict [])],
      bindings = [],
      messages = [example_message ''m1'' ''q-work'' 1,
                  example_message ''m2'' ''q-work'' 5,
                  example_message ''m3'' ''q-work'' 3]\<rparr>"


text \<open>
  Two queues of the name \<^verbatim>\<open>work\<close>, the first declared in the vhost \<^verbatim>\<open>z\<close> and the
  second in the vhost \<^verbatim>\<open>a\<close>, with one message each.
\<close>

definition db_two_vhosts :: broker_db where
  "db_two_vhosts =
     \<lparr>exchanges = [],
      queues = [(example_queue ''q-z'' ''work'' (Str_of_dict []))\<lparr>q_vhost := ''z''\<rparr>,
                (example_queue ''q-a'' ''work'' (Str_of_dict []))\<lparr>q_vhost := ''a''\<rparr>],
      bindings = [],
      messages = [example_message ''mz'' ''q-z'' 0, example_message ''ma'' ''q-a'' 0]\<rparr>"

text \<open>
  The queue \<^verbatim>\<open>work\<close> with the stored count 1 and one message that was neither acked
  nor nacked, and the same database after \<^verbatim>\<open>consume("work", 1)\<close> at the time 1.
\<close>

definition db_counted :: broker_db where
  "db_counted =
     \<lparr>exchanges = [example_exchange ''x-events'' ''direct''],
      queues = [(example_queue ''q-work'' ''work'' (Str_of_dict []))\<lparr>q_message_count := 1\<rparr>],
      bindings = [],
      messages = [example_message ''m1'' ''q-work'' 0]\<rparr>"

definition db_counted_acked :: broker_db where
  "db_counted_acked =
     db_counted\<lparr>messages := [(example_message ''m1'' ''q-work'' 0)\<lparr>m_acked_at := Some 1\<rparr>]\<rparr>"

text \<open>
  A database reached from the empty one by \<^verbatim>\<open>declare_queue("work")\<close>,
  \<^verbatim>\<open>declare_exchange("events")\<close> and \<^verbatim>\<open>publish("events", "job.created", b"payload")\<close>.
\<close>

definition uuid_q :: string where
  "uuid_q = ''6f1c2a34-0b7d-4e59-9a10-3c5d7e8f9a01''"

definition uuid_x :: string where
  "uuid_x = ''6f1c2a34-0b7d-4e59-9a10-3c5d7e8f9a02''"

definition uuid_m :: string where
  "uuid_m = ''6f1c2a34-0b7d-4e59-9a10-3c5d7e8f9a03''"

definition db_published :: broker_db where
  "db_published =
     \<lparr>exchanges = [example_exchange uuid_x ''direct''],
      queues = [example_queue uuid_q ''work'' (Str_of_dict [])],
      bindings = [],
      messages = [example_message uuid_m [] 0]\<rparr>"

section \<open>Helper facts\<close>

lemma find_snoc:
  "find P (xs @ [x]) =
     (case find P xs of Some y \<Rightarrow> Some y | None \<Rightarrow> if P x then Some x else None)"
  by (induction xs) auto

lemma find_None_filter: "find P xs = None \<Longrightarrow> filter P xs = []"
  by (induction xs) (auto split: if_splits)

lemma find_Some_filter: "find P xs = Some y \<Longrightarrow> filter P xs \<noteq> []"
  by (induction xs) (auto split: if_splits)

lemma nack_messages:
  "messages (fst (nack db now message_id requeue)) =
     map (\<lambda>m. if m_id m = message_id
              then m\<lparr>m_nacked_at := Some now, m_attempts := m_attempts m + 1\<rparr> else m)
         (messages db)"
  by (simp add: nack_def)

lemma nack_absent:
  assumes "message_id \<notin> set (map m_id (messages db))"
  shows "fst (nack db now message_id requeue) = db"
proof -
  have "map (\<lambda>m. if m_id m = message_id
                 then m\<lparr>m_nacked_at := Some now, m_attempts := m_attempts m + 1\<rparr> else m)
            (messages db) = messages db"
    using assms by (intro map_idI) auto
  then show ?thesis by (simp add: nack_def)
qed


lemma declare_queue_tables:
  assumes "declare_queue db uuid4 clock name vhost durable exclusive auto_delete arguments
             = Inr (db1, obj)"
  shows "exchanges db1 = exchanges db" "bindings db1 = bindings db" "messages db1 = messages db"
    "queues db1 = queues db \<or>
       (\<exists>row. queues db1 = queues db @ [row] \<and> q_id row = uuid4 \<and> q_name row = name \<and>
              q_vhost row = vhost \<and> q_message_count row = 0)"
    "select_queue db1 name vhost \<noteq> None"
proof -
  show "exchanges db1 = exchanges db" "bindings db1 = bindings db" "messages db1 = messages db"
    using assms by (auto simp: declare_queue_def Let_def split: option.splits if_splits)
  show "queues db1 = queues db \<or>
       (\<exists>row. queues db1 = queues db @ [row] \<and> q_id row = uuid4 \<and> q_name row = name \<and>
              q_vhost row = vhost \<and> q_message_count row = 0)"
    using assms by (auto simp: declare_queue_def Let_def split: option.splits if_splits)
  show "select_queue db1 name vhost \<noteq> None"
  proof (cases "select_queue db name vhost")
    case None
    with assms show ?thesis
      by (auto simp: declare_queue_def Let_def select_queue_def find_snoc split: if_splits)
  next
    case (Some row)
    with assms show ?thesis
      by (auto simp: declare_queue_def Let_def)
  qed
qed

lemma set_sql_limit: "set (sql_limit n rows) \<subseteq> set rows"
  by (auto simp: sql_limit_def dest: in_set_takeD)

lemma consume_rows_queue_id:
  "map m_queue_id (consume_rows ack clock k rows tbl) = map m_queue_id tbl"
  by (induction rows arbitrary: k tbl) (simp_all add: update_acked_at_def comp_def)


lemma select_queue_by_name_None:
  "select_queue_by_name db name = None \<longleftrightarrow> (\<forall>q \<in> set (queues db). q_name q \<noteq> name)"
proof -
  have "select_queue_by_name db name = None
          \<longleftrightarrow> filter (\<lambda>q. q_name q = name) (queues db) = []"
    by (simp add: select_queue_by_name_def split: list.splits)
  then show ?thesis by (simp add: filter_empty_conv)
qed


lemma select_queue_by_name_map:
  assumes "\<And>q. q_name (f q) = q_name q"
  shows "select_queue_by_name (db\<lparr>queues := map f (queues db)\<rparr>) name = None
           \<longleftrightarrow> select_queue_by_name db name = None"
  using assms by (simp add: select_queue_by_name_None)

lemma consume_rows_ready:
  assumes "consume db clock queue_name n ack = Inr (db', rows)" and "r \<in> set rows"
  shows "r \<in> set (messages db) \<and> m_acked_at r = None \<and> m_nacked_at r = None"
proof (cases "select_queue_by_name db queue_name")
  case None
  with assms show ?thesis by (simp add: consume_def)
next
  case (Some q)
  with assms(1) have "rows = sql_limit n (filter (ready (q_id q)) (messages db))"
    by (simp add: consume_def Let_def split: if_splits)
  with assms(2) have "r \<in> set (filter (ready (q_id q)) (messages db))"
    using set_sql_limit [of n "filter (ready (q_id q)) (messages db)"] by auto
  then show ?thesis by (simp add: ready_def)
qed

lemma consume_messages:
  assumes "consume db clock queue_name n ack = Inr (db', rows)"
  shows "queues db' = queues db" "exchanges db' = exchanges db" "bindings db' = bindings db"
    "map m_queue_id (messages db') = map m_queue_id (messages db)"
  using assms
  by (auto simp: consume_def Let_def consume_rows_queue_id split: option.splits if_splits)

text \<open>
  The lookup by name on two queues of one name: the queue of the vhost \<^verbatim>\<open>a\<close> is found
  although the queue of the vhost \<^verbatim>\<open>z\<close> was declared first, so \<^verbatim>\<open>consume\<close> returns
  its message and \<^verbatim>\<open>purge_queue\<close> deletes it.
\<close>

lemma lookup_by_name_smallest_vhost:
  "select_queue_by_name db_two_vhosts ''work''
     = Some ((example_queue ''q-a'' ''work'' (Str_of_dict []))\<lparr>q_vhost := ''a''\<rparr>) \<and>
   consume db_two_vhosts example_clock ''work'' 1 False
     = Inr (db_two_vhosts, [example_message ''ma'' ''q-a'' 0]) \<and>
   purge_queue db_two_vhosts ''work''
     = (db_two_vhosts\<lparr>messages := [example_message ''mz'' ''q-z'' 0]\<rparr>, 1)"
  by (simp add: Let_def consume_def purge_queue_def select_queue_by_name_def sqlite_integer_def
      sql_limit_def ready_def db_two_vhosts_def example_queue_def example_message_def)

section \<open>Declaring exchanges and queues\<close>

text \<open>
  C7, as amended. Declaring an exchange whose (name, vhost) is already in the table never
  fails, whether the type given is the stored one or another: the statement is
  \<^verbatim>\<open>INSERT OR IGNORE\<close>, so the call leaves the database as it was, and the stored
  exchange keeps its id and its type.
\<close>

theorem declare_exchange_existing:
  assumes "select_exchange db name vhost = Some x"
  shows "fst (declare_exchange db uuid4 name type vhost durable auto_delete) = db \<and>
         select_exchange (fst (declare_exchange db uuid4 name type vhost durable auto_delete))
           name vhost = Some x"
proof -
  from assms have
    "list_ex (\<lambda>x. x_id x = uuid4 \<or> (x_name x = name \<and> x_vhost x = vhost)) (exchanges db)"
    by (auto simp: select_exchange_def find_Some_iff list_ex_iff)
  then have "fst (declare_exchange db uuid4 name type vhost durable auto_delete) = db"
    by (simp add: declare_exchange_def Let_def)
  with assms show ?thesis by simp
qed

theorem declare_exchange_existing_witness:
  "select_exchange db_one_message ''events'' ''/''
     = Some (example_exchange ''x-events'' ''direct'') \<and>
   fst (declare_exchange db_one_message ''x-new'' ''events'' ''topic'' ''/'' False True)
     = db_one_message"
proof -
  have sel: "select_exchange db_one_message ''events'' ''/''
               = Some (example_exchange ''x-events'' ''direct'')"
    by (simp add: select_exchange_def db_one_message_def example_exchange_def)
  show ?thesis
    using sel declare_exchange_existing [OF sel, of "''x-new''" "''topic''" False True]
    by simp
qed

text \<open>
  C7 as the specification states it fails. The exchange \<^verbatim>\<open>events\<close> is stored with the
  type \<^verbatim>\<open>direct\<close> and the id \<^verbatim>\<open>x-events\<close>. Declaring it again with the type \<^verbatim>\<open>topic\<close>
  returns an exchange object of type \<^verbatim>\<open>topic\<close> instead of a Conflict error, and
  declaring it again with the stored parameters returns the new id \<^verbatim>\<open>x-new\<close>, not the
  id of the stored exchange.
\<close>

theorem declare_exchange_conflict_counterexample:
  "declare_exchange db_one_message ''x-new'' ''events'' ''topic'' ''/'' True False
     = (db_one_message, example_exchange ''x-new'' ''topic'') \<and>
   map x_type (exchanges db_one_message) = [''direct''] \<and>
   declare_exchange db_one_message ''x-new'' ''events'' ''direct'' ''/'' True False
     = (db_one_message, example_exchange ''x-new'' ''direct'') \<and>
   map x_id (exchanges db_one_message) = [''x-events'']"
  by (simp add: declare_exchange_def db_one_message_def example_exchange_def)

text \<open>
  C8. \<^verbatim>\<open>declare_queue\<close> is idempotent: after a declaration that succeeded, declaring the
  same (name, vhost) with the same parameters again returns a queue object with the same
  id (the same object up to the time it was built), leaves the database as it was, and
  the table holds no second row for (name, vhost): one row when there was none before
  the first call, and as many as before otherwise.
\<close>

theorem declare_queue_idempotent:
  assumes "declare_queue db uuid4 clock name vhost durable exclusive auto_delete arguments
             = Inr (db1, q1)"
  shows "declare_queue db1 uuid4' clock' name vhost durable exclusive auto_delete arguments
           = Inr (db1, q1\<lparr>q_created_at := clock' 0\<rparr>) \<and>
         length (filter (\<lambda>q. q_name q = name \<and> q_vhost q = vhost) (queues db1))
           = max 1 (length (filter (\<lambda>q. q_name q = name \<and> q_vhost q = vhost) (queues db)))"
proof (cases "select_queue db name vhost")
  case None
  then have empty: "filter (\<lambda>q. q_name q = name \<and> q_vhost q = vhost) (queues db) = []"
    by (simp add: select_queue_def find_None_filter)
  from None assms have fresh: "uuid4 \<notin> set (map q_id (queues db))"
    by (auto simp: declare_queue_def Let_def split: if_splits)
  from None assms fresh have db1: "queues db1 = queues db @
      [\<lparr>q_id = uuid4, q_name = name, q_vhost = vhost, q_durable = durable,
        q_exclusive = exclusive, q_auto_delete = auto_delete,
        q_arguments = Str_of_dict (case arguments of None \<Rightarrow> [] | Some a \<Rightarrow> a),
        q_message_count = 0, q_consumer_count = 0,
        q_created_at = clock 0, q_last_message_at = None\<rparr>]"
    by (auto simp: declare_queue_def Let_def)
  from None have sel: "select_queue db1 name vhost = Some (last (queues db1))"
    by (simp add: select_queue_def db1 find_snoc)
  from None assms fresh have q1: "q_id q1 = uuid4 \<and> q1\<lparr>q_created_at := clock' 0\<rparr> =
      \<lparr>q_id = uuid4, q_name = name, q_vhost = vhost, q_durable = durable,
       q_exclusive = exclusive, q_auto_delete = auto_delete,
       q_arguments = (case arguments of None \<Rightarrow> [] | Some a \<Rightarrow> a),
       q_message_count = 0, q_consumer_count = 0, q_created_at = clock' 0,
       q_last_message_at = None\<rparr>"
    by (auto simp: declare_queue_def Let_def)
  have "declare_queue db1 uuid4' clock' name vhost durable exclusive auto_delete arguments
          = Inr (db1, q1\<lparr>q_created_at := clock' 0\<rparr>)"
    using sel q1 by (simp add: declare_queue_def Let_def db1)
  moreover have "length (filter (\<lambda>q. q_name q = name \<and> q_vhost q = vhost) (queues db1)) = 1"
    by (simp add: db1 empty)
  ultimately show ?thesis by (simp add: empty)
next
  case (Some row)
  with assms have eq: "db1 = db" and q1: "q1\<lparr>q_created_at := clock' 0\<rparr> =
      \<lparr>q_id = q_id row, q_name = name, q_vhost = vhost, q_durable = durable,
       q_exclusive = exclusive, q_auto_delete = auto_delete,
       q_arguments = (case arguments of None \<Rightarrow> [] | Some a \<Rightarrow> a),
       q_message_count = 0, q_consumer_count = 0, q_created_at = clock' 0,
       q_last_message_at = None\<rparr>"
    by (auto simp: declare_queue_def Let_def)
  from Some have "filter (\<lambda>q. q_name q = name \<and> q_vhost q = vhost) (queues db) \<noteq> []"
    by (simp add: select_queue_def find_Some_filter)
  then have "1 \<le> length (filter (\<lambda>q. q_name q = name \<and> q_vhost q = vhost) (queues db))"
    by (cases "filter (\<lambda>q. q_name q = name \<and> q_vhost q = vhost) (queues db)") auto
  moreover have
    "declare_queue db1 uuid4' clock' name vhost durable exclusive auto_delete arguments
       = Inr (db1, q1\<lparr>q_created_at := clock' 0\<rparr>)"
    using Some q1 by (simp add: declare_queue_def Let_def eq)
  ultimately show ?thesis by (simp add: eq)
qed

theorem declare_queue_idempotent_witness:
  "declare_queue init_db uuid_q (\<lambda>k. 1 + k) ''work'' ''/'' True False False None
     = Inr (init_db\<lparr>queues := [example_queue uuid_q ''work'' (Str_of_dict [])]\<rparr>,
            \<lparr>q_id = uuid_q, q_name = ''work'', q_vhost = ''/'', q_durable = True,
             q_exclusive = False, q_auto_delete = False, q_arguments = [],
             q_message_count = 0, q_consumer_count = 0, q_created_at = 2,
             q_last_message_at = None\<rparr>) \<and>
   declare_queue (init_db\<lparr>queues := [example_queue uuid_q ''work'' (Str_of_dict [])]\<rparr>)
       uuid_x (\<lambda>k. 50 + k) ''work'' ''/'' True False False None
     = Inr (init_db\<lparr>queues := [example_queue uuid_q ''work'' (Str_of_dict [])]\<rparr>,
            \<lparr>q_id = uuid_q, q_name = ''work'', q_vhost = ''/'', q_durable = True,
             q_exclusive = False, q_auto_delete = False, q_arguments = [],
             q_message_count = 0, q_consumer_count = 0, q_created_at = 50,
             q_last_message_at = None\<rparr>)"
proof -
  have first: "declare_queue init_db uuid_q (\<lambda>k. 1 + k) ''work'' ''/'' True False False None
     = Inr (init_db\<lparr>queues := [example_queue uuid_q ''work'' (Str_of_dict [])]\<rparr>,
            \<lparr>q_id = uuid_q, q_name = ''work'', q_vhost = ''/'', q_durable = True,
             q_exclusive = False, q_auto_delete = False, q_arguments = [],
             q_message_count = 0, q_consumer_count = 0, q_created_at = 2,
             q_last_message_at = None\<rparr>)"
    by (simp add: declare_queue_def select_queue_def init_db_def example_queue_def)
  show ?thesis
    using first declare_queue_idempotent [OF first, of uuid_x "\<lambda>k. 50 + k"]
    by simp
qed

section \<open>publish\<close>

text \<open>
  C1, as amended. A publish to an exchange that exists, with a priority that fits 64
  bits and an id no stored message has, creates exactly one message record, whatever
  the bindings of the exchange are: the
  record has the new id, the attempts counter 0 and the empty string as \<^verbatim>\<open>queue_id\<close>,
  so it refers to no queue. Nothing else in the database changes.
\<close>

theorem publish_one_record:
  assumes "select_exchange db exchange vhost = Some x"
    and "sqlite_integer priority"
    and "uuid4 \<notin> set (map m_id (messages db))"
  shows "publish db uuid4 now exchange routing_key body headers priority content_type vhost =
           Inr (db\<lparr>messages := messages db @
                  [\<lparr>m_id = uuid4, m_queue_id = [], m_exchange = exchange,
                    m_routing_key = routing_key, m_body = body,
                    m_headers = (case headers of None \<Rightarrow> [] | Some h \<Rightarrow> h),
                    m_priority = priority, m_delivery_mode = 2,
                    m_content_type = content_type, m_published_at = now,
                    m_acked_at = None, m_nacked_at = None, m_attempts = 0\<rparr>]\<rparr>,
                uuid4)"
  using assms by (simp add: publish_def Let_def)

theorem publish_one_record_witness:
  "select_exchange db_two_bound ''events'' ''/''
     = Some (example_exchange ''x-events'' ''fanout'') \<and>
   sqlite_integer 0 \<and>
   ''m-new'' \<notin> set (map m_id (messages db_two_bound)) \<and>
   publish db_two_bound ''m-new'' 100 ''events'' ''job.created'' ''payload'' None 0
       ''text/plain'' ''/''
     = Inr (db_two_bound\<lparr>messages := [example_message ''m-new'' [] 0]\<rparr>, ''m-new'')"
proof -
  have sel: "select_exchange db_two_bound ''events'' ''/''
               = Some (example_exchange ''x-events'' ''fanout'')"
    by (simp add: select_exchange_def db_two_bound_def example_exchange_def)
  have range: "sqlite_integer 0"
    by (simp add: sqlite_integer_def)
  have fresh: "''m-new'' \<notin> set (map m_id (messages db_two_bound))"
    by (simp add: db_two_bound_def)
  have empty: "messages db_two_bound = []"
    by (simp add: db_two_bound_def)
  show ?thesis
    using sel range fresh
      publish_one_record [OF sel range fresh, of 100 "''job.created''" "''payload''" None
        "''text/plain''"]
    by (simp add: empty example_message_def)
qed

text \<open>
  C1 as the specification states it fails. The exchange \<^verbatim>\<open>events\<close> has the two queues
  \<^verbatim>\<open>a\<close> and \<^verbatim>\<open>b\<close> bound to it under the routing key \<^verbatim>\<open>job.created\<close> (binding them
  again returns \<^verbatim>\<open>True\<close> and adds nothing). Publishing one message with that routing key
  creates one record, not two, and its \<^verbatim>\<open>queue_id\<close> is neither queue's id.
\<close>

theorem publish_fanout_counterexample:
  "bind_queue db_two_bound ''a'' ''events'' ''job.created'' ''/'' = (db_two_bound, True) \<and>
   bind_queue db_two_bound ''b'' ''events'' ''job.created'' ''/'' = (db_two_bound, True) \<and>
   map b_queue_id (bindings db_two_bound) = [''q-a'', ''q-b''] \<and>
   publish db_two_bound ''m-new'' 100 ''events'' ''job.created'' ''payload'' None 0
       ''text/plain'' ''/''
     = Inr (db_two_bound\<lparr>messages := [example_message ''m-new'' [] 0]\<rparr>, ''m-new'')"
  by (simp add: Let_def publish_def bind_queue_def select_exchange_def select_queue_def
      sqlite_integer_def db_two_bound_def example_exchange_def example_queue_def
      example_message_def)

section \<open>consume\<close>




section \<open>nack\<close>

text \<open>
  C10. For every message id, \<^verbatim>\<open>nack\<close> returns \<^verbatim>\<open>True\<close> and does the same whatever
  \<^verbatim>\<open>requeue\<close> is. When no message has the id the database is unchanged; a message
  that has the id gets \<^verbatim>\<open>nacked_at\<close> set to the time of the call and its attempts
  raised by 1, and nothing else about it changes.
\<close>

theorem nack_always_true:
  "snd (nack db now message_id requeue) = True \<and>
   nack db now message_id requeue = nack db now message_id (\<not> requeue) \<and>
   (message_id \<notin> set (map m_id (messages db)) \<longrightarrow>
      fst (nack db now message_id requeue) = db) \<and>
   length (messages (fst (nack db now message_id requeue))) = length (messages db) \<and>
   (\<forall>i < length (messages db). m_id (messages db ! i) = message_id \<longrightarrow>
      messages (fst (nack db now message_id requeue)) ! i =
        (messages db ! i)\<lparr>m_nacked_at := Some now,
                            m_attempts := m_attempts (messages db ! i) + 1\<rparr>)"
  using nack_absent [of message_id db now requeue]
  by (simp add: nack_messages) (simp add: nack_def)

theorem nack_always_true_witness:
  "''m9'' \<notin> set (map m_id (messages db_one_message)) \<and>
   fst (nack db_one_message 7 ''m9'' True) = db_one_message \<and>
   snd (nack db_one_message 7 ''m9'' True) = True \<and>
   0 < length (messages db_one_message) \<and>
   m_id (messages db_one_message ! 0) = ''m1'' \<and>
   snd (nack db_one_message 7 ''m1'' False) = True \<and>
   messages (fst (nack db_one_message 7 ''m1'' False)) ! 0 =
     (example_message ''m1'' ''q-work'' 0)\<lparr>m_nacked_at := Some 7, m_attempts := 1\<rparr>"
proof -
  have absent: "''m9'' \<notin> set (map m_id (messages db_one_message))"
    and present: "0 < length (messages db_one_message)"
      "m_id (messages db_one_message ! 0) = ''m1''"
    and row: "messages db_one_message ! 0 = example_message ''m1'' ''q-work'' 0"
      "m_attempts (example_message ''m1'' ''q-work'' 0) = 0"
    by (simp_all add: db_one_message_def example_message_def)
  note absent_case = nack_always_true [of db_one_message 7 "''m9''" True]
  note present_case = nack_always_true [of db_one_message 7 "''m1''" False]
  from absent_case absent have unchanged: "fst (nack db_one_message 7 ''m9'' True) = db_one_message"
    by blast
  from absent_case have true1: "snd (nack db_one_message 7 ''m9'' True) = True"
    by blast
  from present_case have true2: "snd (nack db_one_message 7 ''m1'' False) = True"
    by blast
  from present_case present have
    "messages (fst (nack db_one_message 7 ''m1'' False)) ! 0 =
       (messages db_one_message ! 0)\<lparr>m_nacked_at := Some 7,
          m_attempts := m_attempts (messages db_one_message ! 0) + 1\<rparr>"
    by blast
  with row have changed: "messages (fst (nack db_one_message 7 ''m1'' False)) ! 0 =
     (example_message ''m1'' ''q-work'' 0)\<lparr>m_nacked_at := Some 7, m_attempts := 1\<rparr>"
    by simp
  from absent unchanged true1 present true2 changed show ?thesis
    by blast
qed

text \<open>
  C2, as amended. A nack raises the attempts of the message by exactly 1 and sets its
  \<^verbatim>\<open>nacked_at\<close>, whatever \<^verbatim>\<open>requeue\<close> and the attempts are, and leaves it in its queue.
  The message does not become ready again: a \<^verbatim>\<open>consume\<close> that follows the nack, on
  any queue and with any limit, returns no message with that id (where it returns at
  all), because \<^verbatim>\<open>consume\<close> selects only rows whose \<^verbatim>\<open>nacked_at\<close> is not set.
\<close>

theorem nack_not_redelivered:
  "(\<forall>i < length (messages db). m_id (messages db ! i) = message_id \<longrightarrow>
      m_attempts (messages (fst (nack db now message_id requeue)) ! i)
        = m_attempts (messages db ! i) + 1 \<and>
      m_nacked_at (messages (fst (nack db now message_id requeue)) ! i) = Some now \<and>
      m_queue_id (messages (fst (nack db now message_id requeue)) ! i)
        = m_queue_id (messages db ! i)) \<and>
   (\<forall>db' rows. consume (fst (nack db now message_id requeue)) clock queue_name n ack
                  = Inr (db', rows) \<longrightarrow>
      (\<forall>r \<in> set rows. m_id r \<noteq> message_id))"
proof (rule conjI)
  show "\<forall>i < length (messages db). m_id (messages db ! i) = message_id \<longrightarrow>
      m_attempts (messages (fst (nack db now message_id requeue)) ! i)
        = m_attempts (messages db ! i) + 1 \<and>
      m_nacked_at (messages (fst (nack db now message_id requeue)) ! i) = Some now \<and>
      m_queue_id (messages (fst (nack db now message_id requeue)) ! i)
        = m_queue_id (messages db ! i)"
    by (simp add: nack_messages)
next
  have nacked: "m_nacked_at r \<noteq> None"
    if member: "r \<in> set (messages (fst (nack db now message_id requeue)))"
      and same: "m_id r = message_id" for r
  proof -
    from member have
      "r \<in> (\<lambda>m. if m_id m = message_id
                   then m\<lparr>m_nacked_at := Some now, m_attempts := m_attempts m + 1\<rparr>
                   else m) ` set (messages db)"
      by (simp only: nack_messages set_map)
    then obtain m where
      r: "r = (if m_id m = message_id
               then m\<lparr>m_nacked_at := Some now, m_attempts := m_attempts m + 1\<rparr> else m)"
      by (rule imageE)
    show ?thesis
    proof (cases "m_id m = message_id")
      case True
      with r have "r = m\<lparr>m_nacked_at := Some now, m_attempts := m_attempts m + 1\<rparr>"
        by simp
      then show ?thesis by simp
    next
      case False
      with r have "r = m" by simp
      with False same show ?thesis by simp
    qed
  qed
  show "\<forall>db' rows. consume (fst (nack db now message_id requeue)) clock queue_name n ack
                  = Inr (db', rows) \<longrightarrow>
      (\<forall>r \<in> set rows. m_id r \<noteq> message_id)"
  proof (intro allI impI ballI)
    fix db' rows r
    assume run: "consume (fst (nack db now message_id requeue)) clock queue_name n ack
                   = Inr (db', rows)"
      and member: "r \<in> set rows"
    from consume_rows_ready [OF run member] nacked [of r] show "m_id r \<noteq> message_id"
      by blast
  qed
qed

theorem nack_not_redelivered_witness:
  "1 < length (messages db_priorities) \<and> m_id (messages db_priorities ! 1) = ''m2'' \<and>
   m_attempts (messages db_priorities ! 1) = 0 \<and>
   m_attempts (messages (fst (nack db_priorities 7 ''m2'' True)) ! 1) = 1 \<and>
   consume (fst (nack db_priorities 7 ''m2'' True)) example_clock ''work'' 3 False
     = Inr (fst (nack db_priorities 7 ''m2'' True),
            [example_message ''m1'' ''q-work'' 1, example_message ''m3'' ''q-work'' 3]) \<and>
   m_id (example_message ''m1'' ''q-work'' 1) \<noteq> ''m2'' \<and>
   m_id (example_message ''m3'' ''q-work'' 3) \<noteq> ''m2''"
proof -
  have present: "1 < length (messages db_priorities)"
    "m_id (messages db_priorities ! 1) = ''m2''"
    "m_attempts (messages db_priorities ! 1) = 0"
    by (simp_all add: db_priorities_def example_message_def)
  have returned: "consume (fst (nack db_priorities 7 ''m2'' True)) example_clock ''work'' 3 False
      = Inr (fst (nack db_priorities 7 ''m2'' True),
             [example_message ''m1'' ''q-work'' 1, example_message ''m3'' ''q-work'' 3])"
    by (simp add: Let_def consume_def nack_def select_queue_by_name_def sqlite_integer_def
        sql_limit_def ready_def db_priorities_def example_queue_def example_message_def)
  note inst = nack_not_redelivered [of db_priorities "''m2''" 7 True example_clock "''work''" 3 False]
  from inst have rows: "\<forall>i < length (messages db_priorities).
      m_id (messages db_priorities ! i) = ''m2'' \<longrightarrow>
      m_attempts (messages (fst (nack db_priorities 7 ''m2'' True)) ! i)
        = m_attempts (messages db_priorities ! i) + 1 \<and>
      m_nacked_at (messages (fst (nack db_priorities 7 ''m2'' True)) ! i) = Some 7 \<and>
      m_queue_id (messages (fst (nack db_priorities 7 ''m2'' True)) ! i)
        = m_queue_id (messages db_priorities ! i)"
    by (rule conjunct1)
  from inst have none: "\<forall>db' rows.
      consume (fst (nack db_priorities 7 ''m2'' True)) example_clock ''work'' 3 False
        = Inr (db', rows) \<longrightarrow> (\<forall>r \<in> set rows. m_id r \<noteq> ''m2'')"
    by (rule conjunct2)
  from rows [rule_format, OF present(1) present(2)] present(3)
  have attempts: "m_attempts (messages (fst (nack db_priorities 7 ''m2'' True)) ! 1) = 1"
    by simp
  from none [rule_format, OF returned]
  have others: "m_id (example_message ''m1'' ''q-work'' 1) \<noteq> ''m2''"
    "m_id (example_message ''m3'' ''q-work'' 3) \<noteq> ''m2''"
    by simp_all
  from present attempts returned others show ?thesis by blast
qed

text \<open>
  C2 as the specification states it fails. The message \<^verbatim>\<open>m1\<close> is in the queue
  \<^verbatim>\<open>work\<close> with no attempts, and \<^verbatim>\<open>consume\<close> returns it. After \<^verbatim>\<open>nack("m1", requeue=True)\<close>
  its attempts are 1, below the threshold, but \<^verbatim>\<open>consume\<close> on \<^verbatim>\<open>work\<close> returns nothing,
  with or without a limit: the message is not redelivered.
\<close>

theorem nack_requeue_counterexample:
  "consume db_one_message example_clock ''work'' 1 False
     = Inr (db_one_message, [example_message ''m1'' ''q-work'' 0]) \<and>
   messages (fst (nack db_one_message 7 ''m1'' True))
     = [(example_message ''m1'' ''q-work'' 0)\<lparr>m_nacked_at := Some 7, m_attempts := 1\<rparr>] \<and>
   consume (fst (nack db_one_message 7 ''m1'' True)) example_clock ''work'' 1 False
     = Inr (fst (nack db_one_message 7 ''m1'' True), []) \<and>
   consume (fst (nack db_one_message 7 ''m1'' True)) example_clock ''work'' (- 1) True
     = Inr (fst (nack db_one_message 7 ''m1'' True), [])"
  by (simp add: Let_def consume_def nack_def select_queue_by_name_def sqlite_integer_def
      sql_limit_def ready_def db_one_message_def example_queue_def example_message_def)

text \<open>
  C3. The code does not do what the claim (and the comment in \<^verbatim>\<open>dead_letter_queue\<close>,
  "messages with attempts >= 3 are routed to DLQ") says. The queue \<^verbatim>\<open>work\<close> gets the
  dead-letter queue \<^verbatim>\<open>dlq\<close> through \<^verbatim>\<open>dead_letter_queue("work", "dlq")\<close>, and the
  message \<^verbatim>\<open>m1\<close> of \<^verbatim>\<open>work\<close> is nacked three times with \<^verbatim>\<open>requeue=True\<close>. After the
  third nack its attempts are 3 and its routing key is the original one, but its
  \<^verbatim>\<open>queue_id\<close> is still the id of \<^verbatim>\<open>work\<close>: \<^verbatim>\<open>get_pending_dlq("dlq")\<close> is empty and
  \<^verbatim>\<open>get_pending_dlq("work")\<close> lists the message.
\<close>

theorem third_nack_stays_in_queue:
  "dead_letter_queue db_one_message ''q-dlq'' example_clock ''work'' ''dlq''
     = Inr (db_dead_letter, True) \<and>
   messages db_nacked_thrice
     = [(example_message ''m1'' ''q-work'' 0)\<lparr>m_nacked_at := Some 13, m_attempts := 3\<rparr>] \<and>
   get_pending_dlq db_nacked_thrice ''dlq'' = [] \<and>
   get_pending_dlq db_nacked_thrice ''work''
     = [(example_message ''m1'' ''q-work'' 0)\<lparr>m_nacked_at := Some 13, m_attempts := 3\<rparr>]"
  by (simp add: Let_def dead_letter_queue_def declare_queue_def select_queue_def
      select_queue_by_name_def get_pending_dlq_def nack_def db_nacked_thrice_def
      db_dead_letter_def db_one_message_def example_queue_def example_message_def
      example_clock_def)

section \<open>purge_queue\<close>




section \<open>dead_letter_queue\<close>




section \<open>The message count of a queue\<close>

text \<open>
  Every step keeps \<open>nothing_enqueued\<close>: a new queue gets a uuid as its id and the
  count 0, no statement writes \<^verbatim>\<open>message_count\<close>, and the only statement that inserts
  a message gives it the empty \<^verbatim>\<open>queue_id\<close>.
\<close>

lemma nothing_enqueued_init: "nothing_enqueued init_db"
  by (simp add: nothing_enqueued_def init_db_def)

lemma nothing_enqueued_declare_queue:
  assumes "nothing_enqueued db" and "is_uuid4 uuid4"
    and "declare_queue db uuid4 clock name vhost durable exclusive auto_delete arguments
           = Inr (db', q)"
  shows "nothing_enqueued db'"
proof -
  note tables = declare_queue_tables [OF assms(3)]
  from assms(2) have "uuid4 \<noteq> []" by (auto simp: is_uuid4_def)
  with tables(4) assms(1) have "\<forall>q \<in> set (queues db'). q_message_count q = 0 \<and> q_id q \<noteq> []"
    by (auto simp: nothing_enqueued_def)
  with assms(1) tables(3) show ?thesis by (simp add: nothing_enqueued_def)
qed

lemma nothing_enqueued_declare_exchange:
  "nothing_enqueued db \<Longrightarrow>
   nothing_enqueued (fst (declare_exchange db uuid4 name type vhost durable auto_delete))"
  by (simp add: nothing_enqueued_def declare_exchange_def Let_def)

lemma nothing_enqueued_bind_queue:
  "nothing_enqueued db \<Longrightarrow>
   nothing_enqueued (fst (bind_queue db queue_name exchange_name routing_key vhost))"
  by (simp add: nothing_enqueued_def bind_queue_def split: option.splits)

lemma nothing_enqueued_publish:
  assumes "nothing_enqueued db"
    and "publish db uuid4 now exchange routing_key body headers priority content_type vhost
           = Inr (db', message_id)"
  shows "nothing_enqueued db'"
  using assms
  by (auto simp: nothing_enqueued_def publish_def Let_def split: option.splits if_splits)

lemma nothing_enqueued_consume:
  assumes "nothing_enqueued db"
    and "consume db clock queue_name n ack = Inr (db', rows)"
  shows "nothing_enqueued db'"
proof -
  note same = consume_messages [OF assms(2)]
  from same(4) have "set (map m_queue_id (messages db')) = set (map m_queue_id (messages db))"
    by simp
  with assms(1) have "\<forall>m \<in> set (messages db'). m_queue_id m = []"
    by (auto simp: nothing_enqueued_def)
  with assms(1) same(1) show ?thesis by (simp add: nothing_enqueued_def)
qed

lemma nothing_enqueued_nack:
  "nothing_enqueued db \<Longrightarrow> nothing_enqueued (fst (nack db now message_id requeue))"
  by (auto simp: nothing_enqueued_def nack_def)

lemma nothing_enqueued_purge_queue:
  "nothing_enqueued db \<Longrightarrow> nothing_enqueued (fst (purge_queue db queue_name))"
  by (simp add: nothing_enqueued_def purge_queue_def split: option.splits)

lemma dead_letter_queue_steps:
  assumes "dead_letter_queue db uuid4 clock queue_name dlq_name = Inr (db', ok)"
  obtains db1 obj where
    "declare_queue db uuid4 clock dlq_name ''/'' True False False None = Inr (db1, obj)"
    "messages db' = messages db1"
    "map q_id (queues db') = map q_id (queues db1)"
    "map q_message_count (queues db') = map q_message_count (queues db1)"
proof -
  from assms obtain db1 obj where
    declared: "declare_queue db uuid4 clock dlq_name ''/'' True False False None = Inr (db1, obj)"
    and rest: "(case select_queue_by_name db1 queue_name of
                  Some result \<Rightarrow>
                    Inr (db1\<lparr>queues := map (\<lambda>q. if q_id q = q_id result
                                  then q\<lparr>q_arguments := Text (dead_letter_text dlq_name)\<rparr>
                                  else q) (queues db1)\<rparr>, True)
                | None \<Rightarrow> Inr (db1, False)) = (Inr (db', ok) :: error + broker_db \<times> bool)"
    by (auto simp: dead_letter_queue_def split: sum.splits)
  from rest have "messages db' = messages db1"
    "map q_id (queues db') = map q_id (queues db1)"
    "map q_message_count (queues db') = map q_message_count (queues db1)"
    by (auto split: option.splits)
  with declared that show ?thesis by blast
qed

lemma nothing_enqueued_dead_letter_queue:
  assumes "nothing_enqueued db" and "is_uuid4 uuid4"
    and "dead_letter_queue db uuid4 clock queue_name dlq_name = Inr (db', ok)"
  shows "nothing_enqueued db'"
proof -
  from assms(3) obtain db1 obj where
    declared: "declare_queue db uuid4 clock dlq_name ''/'' True False False None = Inr (db1, obj)"
    and same: "messages db' = messages db1" "map q_id (queues db') = map q_id (queues db1)"
      "map q_message_count (queues db') = map q_message_count (queues db1)"
    by (rule dead_letter_queue_steps)
  from nothing_enqueued_declare_queue [OF assms(1,2) declared]
  have inv: "nothing_enqueued db1" .
  have "q_message_count q = 0 \<and> q_id q \<noteq> []" if "q \<in> set (queues db')" for q
  proof -
    from that obtain i where i: "i < length (queues db')" "queues db' ! i = q"
      by (auto simp: in_set_conv_nth)
    from same(2) have len: "length (queues db') = length (queues db1)"
      by (rule map_eq_imp_length_eq)
    from i len have "queues db1 ! i \<in> set (queues db1)" by simp
    with inv have "q_message_count (queues db1 ! i) = 0" "q_id (queues db1 ! i) \<noteq> []"
      by (auto simp: nothing_enqueued_def)
    moreover from i len same(2) have "q_id q = q_id (queues db1 ! i)"
      by (metis nth_map)
    moreover from i len same(3) have "q_message_count q = q_message_count (queues db1 ! i)"
      by (metis nth_map)
    ultimately show ?thesis by simp
  qed
  with inv same(1) show ?thesis by (simp add: nothing_enqueued_def)
qed

lemma step_nothing_enqueued:
  assumes "step db db'" and "nothing_enqueued db"
  shows "nothing_enqueued db'"
  using assms
proof (cases rule: step.cases)
  case (step_declare_queue uuid4 clock name vhost durable exclusive auto_delete arguments q)
  with assms(2) show ?thesis by (blast intro: nothing_enqueued_declare_queue)
next
  case (step_declare_exchange uuid4 name type vhost durable auto_delete)
  with assms(2) show ?thesis by (simp add: nothing_enqueued_declare_exchange)
next
  case (step_bind_queue queue_name exchange_name routing_key vhost)
  with assms(2) show ?thesis by (simp add: nothing_enqueued_bind_queue)
next
  case (step_publish uuid4 now exchange routing_key body headers priority content_type vhost
      message_id)
  with assms(2) show ?thesis by (blast intro: nothing_enqueued_publish)
next
  case (step_consume clock queue_name n ack rows)
  with assms(2) show ?thesis by (blast intro: nothing_enqueued_consume)
next
  case (step_nack now message_id requeue)
  with assms(2) show ?thesis by (simp add: nothing_enqueued_nack)
next
  case (step_purge_queue queue_name)
  with assms(2) show ?thesis by (simp add: nothing_enqueued_purge_queue)
next
  case (step_dead_letter_queue uuid4 clock queue_name dlq_name ok)
  with assms(2) show ?thesis by (blast intro: nothing_enqueued_dead_letter_queue)
qed

lemma reachable_nothing_enqueued: "reachable db \<Longrightarrow> nothing_enqueued db"
  by (induction rule: reachable.induct)
    (auto intro: nothing_enqueued_init step_nothing_enqueued)

text \<open>
  No step writes \<^verbatim>\<open>message_count\<close>, on any database: the counts of the stored queues
  stay as they are, and a queue that the step adds has the count 0.
\<close>

lemma declare_queue_message_count:
  assumes "declare_queue db uuid4 clock name vhost durable exclusive auto_delete arguments
             = Inr (db', q)"
  shows "\<exists>k. map q_message_count (queues db') = map q_message_count (queues db) @ replicate k 0"
proof -
  from declare_queue_tables(4) [OF assms]
  consider "queues db' = queues db"
    | row where "queues db' = queues db @ [row]" "q_message_count row = 0"
    by blast
  then show ?thesis
  proof cases
    case 1
    then have "map q_message_count (queues db')
                 = map q_message_count (queues db) @ replicate 0 0"
      by simp
    then show ?thesis ..
  next
    case 2
    then have "map q_message_count (queues db')
                 = map q_message_count (queues db) @ replicate 1 0"
      by simp
    then show ?thesis ..
  qed
qed

lemma same_message_count:
  "queues db' = queues db \<Longrightarrow>
   \<exists>k. map q_message_count (queues db') = map q_message_count (queues db) @ replicate k 0"
  by (rule exI [of _ 0]) simp

lemma step_message_count:
  assumes "step db db'"
  shows "\<exists>k. map q_message_count (queues db') = map q_message_count (queues db) @ replicate k 0"
  using assms
proof (cases rule: step.cases)
  case (step_declare_queue uuid4 clock name vhost durable exclusive auto_delete arguments q)
  then show ?thesis by (blast intro: declare_queue_message_count)
next
  case (step_declare_exchange uuid4 name type vhost durable auto_delete)
  then show ?thesis by (intro same_message_count) (simp add: declare_exchange_def Let_def)
next
  case (step_bind_queue queue_name exchange_name routing_key vhost)
  then show ?thesis
    by (intro same_message_count) (simp add: bind_queue_def split: option.splits)
next
  case (step_publish uuid4 now exchange routing_key body headers priority content_type vhost
      message_id)
  then show ?thesis
    by (intro same_message_count)
      (auto simp: publish_def Let_def split: option.splits if_splits)
next
  case (step_consume clock queue_name n ack rows)
  then show ?thesis by (intro same_message_count) (rule consume_messages(1))
next
  case (step_nack now message_id requeue)
  then show ?thesis by (intro same_message_count) (simp add: nack_def)
next
  case (step_purge_queue queue_name)
  then show ?thesis
    by (intro same_message_count) (simp add: purge_queue_def split: option.splits)
next
  case (step_dead_letter_queue uuid4 clock queue_name dlq_name ok)
  from step_dead_letter_queue(2) obtain db1 obj where
    declared: "declare_queue db uuid4 clock dlq_name ''/'' True False False None = Inr (db1, obj)"
    and same: "map q_message_count (queues db') = map q_message_count (queues db1)"
    by (rule dead_letter_queue_steps)
  from declare_queue_message_count [OF declared] same show ?thesis by simp
qed

lemma sum_list_zero: "(\<forall>x \<in> set xs. f x = (0::int)) \<Longrightarrow> sum_list (map f xs) = 0"
  by (induction xs) simp_all

lemma reachable_total_messages:
  assumes "reachable db"
  shows "stats_total_messages (get_queue_stats db queue_name) = 0"
proof -
  from assms have "\<forall>q \<in> set (queues db). q_message_count q = 0"
    using reachable_nothing_enqueued by (auto simp: nothing_enqueued_def)
  then show ?thesis
    by (auto simp: get_queue_stats_def Let_def intro!: sum_list_zero split: option.splits)
qed

text \<open>
  C6, as amended. No operation writes \<^verbatim>\<open>message_count\<close>: a step (declare_queue,
  declare_exchange, bind_queue, publish, consume with or without ack, nack,
  purge_queue, dead_letter_queue), taken from any database, leaves the count of every
  stored queue as it was and gives a queue it adds the count 0. So in every database
  reachable from the empty one the count of every queue is 0; it equals the number of
  the queue's messages, in whatever state, only because no message of such a database
  has the id of a queue.
\<close>

theorem message_count_never_written:
  "(step db db' \<longrightarrow>
      (\<exists>k. map q_message_count (queues db')
              = map q_message_count (queues db) @ replicate k 0)) \<and>
   (reachable db \<longrightarrow>
      (\<forall>q \<in> set (queues db).
         q_message_count q = 0 \<and>
         filter (\<lambda>m. m_queue_id m = q_id q) (messages db) = []))"
proof (intro conjI impI ballI)
  assume "step db db'"
  then show "\<exists>k. map q_message_count (queues db')
                   = map q_message_count (queues db) @ replicate k 0"
    by (rule step_message_count)
next
  fix q
  assume "reachable db" and member: "q \<in> set (queues db)"
  then have inv: "nothing_enqueued db" by (simp add: reachable_nothing_enqueued)
  with member show "q_message_count q = 0" by (simp add: nothing_enqueued_def)
  from inv member have "q_id q \<noteq> []" by (simp add: nothing_enqueued_def)
  with inv show "filter (\<lambda>m. m_queue_id m = q_id q) (messages db) = []"
    by (auto simp: nothing_enqueued_def filter_empty_conv)
qed

theorem message_count_never_written_witness:
  "step db_counted db_counted_acked \<and>
   map q_message_count (queues db_counted) = [1] \<and>
   map q_message_count (queues db_counted_acked) = [1] \<and>
   reachable db_published \<and>
   example_queue uuid_q ''work'' (Str_of_dict []) \<in> set (queues db_published) \<and>
   q_message_count (example_queue uuid_q ''work'' (Str_of_dict [])) = 0 \<and>
   messages db_published = [example_message uuid_m [] 0] \<and>
   m_queue_id (example_message uuid_m [] 0) \<noteq> uuid_q"
proof -
  have uuids: "is_uuid4 uuid_q" "is_uuid4 uuid_x" "is_uuid4 uuid_m"
    by (simp_all add: is_uuid4_def uuid_q_def uuid_x_def uuid_m_def)
  have run: "consume db_counted example_clock ''work'' 1 True
      = Inr (db_counted_acked, [example_message ''m1'' ''q-work'' 0])"
    by (simp add: Let_def consume_def select_queue_by_name_def sqlite_integer_def sql_limit_def
        ready_def update_acked_at_def db_counted_def db_counted_acked_def example_queue_def
        example_message_def example_clock_def)
  have s0: "step db_counted db_counted_acked"
    by (rule step_consume [OF run])
  have before: "map q_message_count (queues db_counted) = [1]"
    by (simp add: db_counted_def example_queue_def)
  have step1: "declare_queue init_db uuid_q example_clock ''work'' ''/'' True False False None
      = Inr (init_db\<lparr>queues := [example_queue uuid_q ''work'' (Str_of_dict [])]\<rparr>,
             \<lparr>q_id = uuid_q, q_name = ''work'', q_vhost = ''/'', q_durable = True,
              q_exclusive = False, q_auto_delete = False, q_arguments = [],
              q_message_count = 0, q_consumer_count = 0, q_created_at = 2,
              q_last_message_at = None\<rparr>)"
    by (simp add: declare_queue_def Let_def select_queue_def init_db_def example_queue_def
        example_clock_def)
  have step2: "fst (declare_exchange
        (init_db\<lparr>queues := [example_queue uuid_q ''work'' (Str_of_dict [])]\<rparr>)
        uuid_x ''events'' ''direct'' ''/'' True False)
      = init_db\<lparr>queues := [example_queue uuid_q ''work'' (Str_of_dict [])],
                 exchanges := [example_exchange uuid_x ''direct'']\<rparr>"
    by (simp add: declare_exchange_def Let_def init_db_def example_exchange_def)
  have step3: "publish (init_db\<lparr>queues := [example_queue uuid_q ''work'' (Str_of_dict [])],
                 exchanges := [example_exchange uuid_x ''direct'']\<rparr>)
      uuid_m 100 ''events'' ''job.created'' ''payload'' None 0 ''text/plain'' ''/''
      = Inr (db_published, uuid_m)"
    by (simp add: publish_def Let_def select_exchange_def sqlite_integer_def init_db_def
        example_exchange_def example_message_def db_published_def)
  have r1: "reachable (init_db\<lparr>queues := [example_queue uuid_q ''work'' (Str_of_dict [])]\<rparr>)"
    by (rule reachable_step [OF reachable_init step_declare_queue [OF uuids(1) step1]])
  have r2: "reachable (init_db\<lparr>queues := [example_queue uuid_q ''work'' (Str_of_dict [])],
                 exchanges := [example_exchange uuid_x ''direct'']\<rparr>)"
    using reachable_step [OF r1 step_declare_exchange [OF uuids(2),
          of _ "''events''" "''direct''" "''/''" True False]]
    by (simp only: step2)
  have r3: "reachable db_published"
    by (rule reachable_step [OF r2 step_publish [OF uuids(3) step3]])
  have member: "example_queue uuid_q ''work'' (Str_of_dict []) \<in> set (queues db_published)"
    by (simp add: db_published_def)
  have qid: "q_id (example_queue uuid_q ''work'' (Str_of_dict [])) = uuid_q"
    by (simp add: example_queue_def)
  have stored: "messages db_published = [example_message uuid_m [] 0]"
    by (simp add: db_published_def)
  note inst = message_count_never_written [of db_counted db_counted_acked]
  note inst' = message_count_never_written [of db_published db_published]
  from inst s0 obtain k where
    k: "map q_message_count (queues db_counted_acked)
          = map q_message_count (queues db_counted) @ replicate k 0"
    by blast
  have "length (queues db_counted_acked) = length (queues db_counted)"
    by (simp add: db_counted_acked_def)
  with k have "k = 0"
    by (metis add_cancel_right_right length_append length_map length_replicate)
  with k before have after: "map q_message_count (queues db_counted_acked) = [1]"
    by simp
  from inst' r3 member have zero:
    "q_message_count (example_queue uuid_q ''work'' (Str_of_dict [])) = 0"
    and none: "filter (\<lambda>m. m_queue_id m = q_id (example_queue uuid_q ''work'' (Str_of_dict [])))
                 (messages db_published) = []"
    by blast+
  from none have other: "m_queue_id (example_message uuid_m [] 0) \<noteq> uuid_q"
    unfolding stored qid by (simp split: if_splits)
  from s0 before after r3 member zero stored other show ?thesis by blast
qed

text \<open>
  C6 as the specification states it fails. The queue \<^verbatim>\<open>work\<close> has the stored count 1
  and holds one ready message, so the equation holds. \<^verbatim>\<open>consume("work", 1)\<close> acks the
  message and leaves the count at 1 while the queue has no message left that is ready
  or unacked; \<^verbatim>\<open>purge_queue("work")\<close> deletes the message and leaves the count at 1
  as well.
\<close>

theorem message_count_not_preserved_counterexample:
  "map q_message_count (queues db_counted) = [1] \<and>
   filter (ready ''q-work'') (messages db_counted) = [example_message ''m1'' ''q-work'' 0] \<and>
   consume db_counted example_clock ''work'' 1 True
     = Inr (db_counted_acked, [example_message ''m1'' ''q-work'' 0]) \<and>
   map q_message_count (queues db_counted_acked) = [1] \<and>
   map m_acked_at (messages db_counted_acked) = [Some 1] \<and>
   filter (ready ''q-work'') (messages db_counted_acked) = [] \<and>
   messages (fst (purge_queue db_counted ''work'')) = [] \<and>
   map q_message_count (queues (fst (purge_queue db_counted ''work''))) = [1]"
  by (simp add: Let_def consume_def purge_queue_def select_queue_by_name_def sqlite_integer_def
      sql_limit_def ready_def update_acked_at_def db_counted_def db_counted_acked_def
      example_queue_def example_message_def example_clock_def)

end
